theory Spec2Isabelle
  imports Main "HOL-Library.Sublist" "HOL-Library.Multiset"
begin

section \<open>Data model\<close>

text \<open>
  The relational schema of the course library (tables User, Course, Resource, Comment).
  Identifiers are the TEXT primary keys of the schema, timestamps are milliseconds.
  Record fields carry the table name as a prefix, since the tables share column names.
\<close>

datatype Role = STUDENT | PROFESSOR

datatype ResourceType = PDF | LINK | VIDEO

record User =
  user_id :: string
  user_email :: string
  user_name :: string
  user_password :: string
  user_role :: Role

record Course =
  course_id :: string
  course_title :: string
  course_description :: string
  course_category :: string
  course_createdAt :: nat
  course_ownerId :: string

record Resource =
  resource_id :: string
  resource_title :: string
  resource_url :: string
  resource_type :: ResourceType
  resource_createdAt :: nat
  resource_courseId :: string

record Comment =
  comment_id :: string
  comment_content :: string
  comment_createdAt :: nat
  comment_courseId :: string
  comment_userId :: string

text \<open>
  The database: one list of rows per table, and the function by which its locale puts a
  character in lower case for a case-insensitive comparison.
\<close>

record store =
  users :: "User list"
  courses :: "Course list"
  resources :: "Resource list"
  comments :: "Comment list"
  db_lower :: "char \<Rightarrow> char"

text \<open>
  A reply sent with an error status and a \<open>{message}\<close> body is the left summand of a
  handler's result; the right summand is the payload of a successful reply.
  \<open>InternalServerError\<close> is the 500 that the framework's error handler sends when a
  handler throws, as it does when a database statement fails.
\<close>

datatype reply_error = HttpError (status: nat) (message: string) | InternalServerError

text \<open>The select \<open>{id, email, name, role}\<close> of a user row: the password never leaves.\<close>

record UserPublic =
  pub_id :: string
  pub_email :: string
  pub_name :: string
  pub_role :: Role

definition select_public :: "User \<Rightarrow> UserPublic" where
  "select_public u =
     \<lparr>pub_id = user_id u, pub_email = user_email u, pub_name = user_name u, pub_role = user_role u\<rparr>"

section \<open>JavaScript string helpers\<close>

text \<open>\<open>!x\<close> on an optional string: true when the field is undefined or the empty string.\<close>

definition falsy :: "string option \<Rightarrow> bool" where
  "falsy x = (case x of None \<Rightarrow> True | Some v \<Rightarrow> v = [])"

text \<open>
  A string is a list of characters with codes 0 to 255. \<open>String.prototype.trim\<close>
  strips white space and line terminators from both ends; among these codes they are
  tab, line feed, vertical tab, form feed, carriage return, space and the no-break space
  U+00A0.
\<close>

definition is_space :: "char \<Rightarrow> bool" where
  "is_space c =
     (c \<in> set [CHR 0x09, CHR 0x0A, CHR 0x0B, CHR 0x0C, CHR 0x0D, CHR '' '', CHR 0xA0])"

definition trim :: "string \<Rightarrow> string" where
  "trim v = rev (dropWhile is_space (rev (dropWhile is_space v)))"

section \<open>auth.controller\<close>

record RegisterBody =
  reg_email :: "string option"
  reg_password :: "string option"
  reg_name :: "string option"
  reg_role :: "string option"

record LoginBody =
  login_email :: "string option"
  login_password :: "string option"

text \<open>\<open>prisma.user.findUnique({ where: { email } })\<close>\<close>

definition user_findUnique_email :: "store \<Rightarrow> string \<Rightarrow> User option" where
  "user_findUnique_email s e = find (\<lambda>u. user_email u = e) (users s)"

text \<open>\<open>prisma.user.findUnique({ where: { id } })\<close>\<close>

definition user_findUnique :: "store \<Rightarrow> string \<Rightarrow> User option" where
  "user_findUnique s i = find (\<lambda>u. user_id u = i) (users s)"

text \<open>
  \<open>register\<close>. The password hashing function \<open>hash\<close> (bcrypt with cost 10) and the
  primary key \<open>new_id\<close> that the database gives the new row are parameters.
  \<open>req.body || {}\<close> makes every field of a missing body undefined.
\<close>

definition register ::
  "(string \<Rightarrow> string) \<Rightarrow> string \<Rightarrow> store \<Rightarrow> RegisterBody option
     \<Rightarrow> (reply_error + UserPublic) \<times> store" where
  "register hash new_id s body =
     (let b = (case body of
                 None \<Rightarrow> \<lparr>reg_email = None, reg_password = None, reg_name = None, reg_role = None\<rparr>
               | Some b' \<Rightarrow> b')
      in if falsy (reg_email b) \<or> falsy (reg_password b) \<or> falsy (reg_name b)
         then (Inl (HttpError 400 ''email, password, name sunt obligatorii''), s)
         else
           let email = the (reg_email b); password = the (reg_password b); name = the (reg_name b)
           in (case user_findUnique_email s email of
                 Some existing \<Rightarrow> (Inl (HttpError 409 ''Email deja folosit''), s)
               | None \<Rightarrow>
                   let passwordHash = hash password;
                       user = \<lparr>user_id = new_id, user_email = email, user_name = name,
                               user_password = passwordHash,
                               user_role = (if reg_role b = Some ''PROFESSOR'' then PROFESSOR else STUDENT)\<rparr>
                   in (Inr (select_public user), s\<lparr>users := users s @ [user]\<rparr>)))"

text \<open>
  A successful login: the payload signed into the token, the cookie it is set in and the
  user object of the reply.
\<close>

record TokenPayload =
  sub :: string
  email :: string
  name :: string
  role :: Role

record Cookie =
  cookie_name :: string
  cookie_value :: TokenPayload
  httpOnly :: bool
  sameSite :: string
  path :: string
  maxAge :: nat

record LoginReply =
  setCookie :: Cookie
  reply_user :: UserPublic

text \<open>
  \<open>login\<close>. \<open>compare\<close> is bcrypt's comparison of a password with a stored hash. The
  store is only read.
\<close>

definition login ::
  "(string \<Rightarrow> string \<Rightarrow> bool) \<Rightarrow> store \<Rightarrow> LoginBody option \<Rightarrow> reply_error + LoginReply" where
  "login compare s body =
     (let b = (case body of None \<Rightarrow> \<lparr>login_email = None, login_password = None\<rparr> | Some b' \<Rightarrow> b')
      in if falsy (login_email b) \<or> falsy (login_password b)
         then Inl (HttpError 400 ''email si password sunt obligatorii'')
         else
           (case user_findUnique_email s (the (login_email b)) of
              None \<Rightarrow> Inl (HttpError 401 ''Email sau parola invalide'')
            | Some user \<Rightarrow>
                if \<not> compare (the (login_password b)) (user_password user)
                then Inl (HttpError 401 ''Email sau parola invalide'')
                else
                  let token = \<lparr>sub = user_id user, email = user_email user,
                               name = user_name user, role = user_role user\<rparr>
                  in Inr \<lparr>setCookie = \<lparr>cookie_name = ''token'', cookie_value = token,
                                        httpOnly = True, sameSite = ''lax'', path = ''/'',
                                        maxAge = 60 * 60 * 24 * 7\<rparr>,
                          reply_user = select_public user\<rparr>))"

section \<open>The database client\<close>

text \<open>
  The queries of the course routes. A string filter of a \<open>where\<close> clause carries its
  mode. The database runs \<open>contains\<close> as a pattern match of the column against the
  value between two \<open>%\<close>, and \<open>equals\<close> in mode \<open>insensitive\<close> as a pattern match
  against the value itself; the value is not escaped. In mode \<open>insensitive\<close> column and
  pattern are both put in lower case, character by character, before they are matched.
  Which letters beyond A to Z have a lower case depends on the locale of the database;
  \<open>toLowerChar\<close> is the lower case of a locale that knows the ASCII letters only.
\<close>

definition toLowerChar :: "char \<Rightarrow> char" where
  "toLowerChar c =
     (let n = (of_char c :: nat) in if 65 \<le> n \<and> n \<le> 90 then char_of (n + 32) else c)"

text \<open>
  The pattern match of the database (LIKE) on a text \<open>t\<close> and a pattern \<open>p\<close>:
  \<open>%\<close> stands for any sequence of characters, \<open>_\<close> for any one character, and a
  backslash makes the character after it literal. It is an error when the match arrives
  at a backslash that ends the pattern. \<open>LIKE_ABORT\<close> is a failed match that also ends
  the search for a later starting point. \<open>after_percent\<close> is the state after a
  \<open>%\<close>; \<open>first_match f\<close> tries the rest of the pattern at every position of the
  text that starts with \<open>f\<close>.
\<close>

datatype like = LIKE_TRUE | LIKE_FALSE | LIKE_ABORT | LIKE_ERROR

fun MatchText :: "string \<Rightarrow> string \<Rightarrow> like"
  and after_percent :: "string \<Rightarrow> string \<Rightarrow> like"
  and first_match :: "char \<Rightarrow> string \<Rightarrow> string \<Rightarrow> like"
where
  "MatchText [] p = (if dropWhile (\<lambda>q. q = CHR ''%'') p = [] then LIKE_TRUE else LIKE_ABORT)"
| "MatchText (c # t) [] = LIKE_FALSE"
| "MatchText (c # t) (q # p) =
     (if q = CHR 0x5C then
        (case p of
           [] \<Rightarrow> LIKE_ERROR
         | q' # p' \<Rightarrow> if q' \<noteq> c then LIKE_FALSE else MatchText t p')
      else if q = CHR ''%'' then after_percent (c # t) p
      else if q = CHR ''_'' then MatchText t p
      else if q \<noteq> c then LIKE_FALSE
      else MatchText t p)"
| "after_percent t [] = LIKE_TRUE"
| "after_percent t (q # p) =
     (if q = CHR ''%'' then after_percent t p
      else if q = CHR ''_'' then (case t of [] \<Rightarrow> LIKE_ABORT | c # t' \<Rightarrow> after_percent t' p)
      else if q = CHR 0x5C then
        (case p of [] \<Rightarrow> LIKE_ERROR | q' # p' \<Rightarrow> first_match q' t (q # p))
      else first_match q t (q # p))"
| "first_match f [] p = LIKE_ABORT"
| "first_match f (c # t) p =
     (if c = f
      then (case MatchText (c # t) p of LIKE_FALSE \<Rightarrow> first_match f t p | m \<Rightarrow> m)
      else first_match f t p)"

text \<open>The characters with a special meaning in a pattern.\<close>

definition like_special :: "char \<Rightarrow> bool" where
  "like_special c = (c = CHR ''%'' \<or> c = CHR ''_'' \<or> c = CHR 0x5C)"

text \<open>
  What every locale's lower case does: it leaves the three special characters as they
  are and makes no other character one of them.
\<close>

definition plain_lower :: "(char \<Rightarrow> char) \<Rightarrow> bool" where
  "plain_lower lo =
     (\<forall>c. (like_special c \<longrightarrow> lo c = c) \<and> (\<not> like_special c \<longrightarrow> \<not> like_special (lo c)))"


datatype QueryMode = Default | Insensitive

datatype StringFilter = Contains string QueryMode | Equals string QueryMode

definition in_mode :: "(char \<Rightarrow> char) \<Rightarrow> QueryMode \<Rightarrow> string \<Rightarrow> string" where
  "in_mode lo m v = (case m of Default \<Rightarrow> v | Insensitive \<Rightarrow> map lo v)"

text \<open>The value of a condition on a row; \<open>None\<close> when evaluating it raises an error.\<close>

definition like_bool :: "like \<Rightarrow> bool option" where
  "like_bool r =
     (case r of LIKE_TRUE \<Rightarrow> Some True | LIKE_ERROR \<Rightarrow> None
      | LIKE_FALSE \<Rightarrow> Some False | LIKE_ABORT \<Rightarrow> Some False)"

fun matches_filter :: "(char \<Rightarrow> char) \<Rightarrow> StringFilter \<Rightarrow> string \<Rightarrow> bool option" where
  "matches_filter lo (Contains v m) x =
     like_bool (MatchText (in_mode lo m x) (in_mode lo m (''%'' @ v @ ''%'')))"
| "matches_filter lo (Equals v Insensitive) x = like_bool (MatchText (map lo x) (map lo v))"
| "matches_filter lo (Equals v Default) x = Some (x = v)"

text \<open>
  Disjunction and conjunction of conditions, evaluated in the order they are written: the
  first condition that decides ends the evaluation, an error before that is the result.
\<close>

fun any_of :: "bool option list \<Rightarrow> bool option" where
  "any_of [] = Some False"
| "any_of (None # rs) = None"
| "any_of (Some True # rs) = Some True"
| "any_of (Some False # rs) = any_of rs"

fun all_of :: "bool option list \<Rightarrow> bool option" where
  "all_of [] = Some True"
| "all_of (None # rs) = None"
| "all_of (Some False # rs) = Some False"
| "all_of (Some True # rs) = all_of rs"

datatype CourseWhere =
    Title StringFilter
  | Description StringFilter
  | Category StringFilter
  | OR "CourseWhere list"

fun course_matches :: "(char \<Rightarrow> char) \<Rightarrow> CourseWhere \<Rightarrow> Course \<Rightarrow> bool option" where
  "course_matches lo (Title f) c = matches_filter lo f (course_title c)"
| "course_matches lo (Description f) c = matches_filter lo f (course_description c)"
| "course_matches lo (Category f) c = matches_filter lo f (course_category c)"
| "course_matches lo (OR ws) c = any_of (map (\<lambda>w. course_matches lo w c) ws)"

text \<open>
  The keys of a \<open>where\<close> object are a conjunction. The database evaluates the
  conditions of a conjunction cheapest first, and those of equal cost in the order they
  are written; the cost of a condition is the number of comparisons in it.
\<close>

fun where_cost :: "CourseWhere \<Rightarrow> nat" where
  "where_cost (Title f) = 1"
| "where_cost (Description f) = 1"
| "where_cost (Category f) = 1"
| "where_cost (OR ws) = sum_list (map where_cost ws)"

definition where_holds ::
  "(char \<Rightarrow> char) \<Rightarrow> CourseWhere list \<Rightarrow> Course \<Rightarrow> bool option" where
  "where_holds lo w c = all_of (map (\<lambda>x. course_matches lo x c) (sort_key where_cost w))"

text \<open>\<open>orderBy: { createdAt: "desc" }\<close>\<close>

definition order_desc :: "('a \<Rightarrow> nat) \<Rightarrow> 'a list \<Rightarrow> 'a list" where
  "order_desc key xs = rev (sort_key key xs)"

text \<open>
  \<open>prisma.course.findMany({ where, orderBy: { createdAt: "desc" } })\<close>. The statement
  fails, and the call throws, when the condition raises an error on a row.
\<close>

definition course_findMany :: "store \<Rightarrow> CourseWhere list \<Rightarrow> Course list option" where
  "course_findMany s w =
     (if list_ex (\<lambda>c. where_holds (db_lower s) w c = None) (courses s) then None
      else Some (order_desc course_createdAt
                   (filter (\<lambda>c. where_holds (db_lower s) w c = Some True) (courses s))))"

definition course_findUnique :: "store \<Rightarrow> string \<Rightarrow> Course option" where
  "course_findUnique s i = find (\<lambda>c. course_id c = i) (courses s)"

definition resource_findUnique :: "store \<Rightarrow> string \<Rightarrow> Resource option" where
  "resource_findUnique s i = find (\<lambda>r. resource_id r = i) (resources s)"

definition comment_findUnique :: "store \<Rightarrow> string \<Rightarrow> Comment option" where
  "comment_findUnique s i = find (\<lambda>c. comment_id c = i) (comments s)"

text \<open>The relation fields \<open>resources\<close> and \<open>comments\<close> of a course, newest first.\<close>

definition course_resources :: "store \<Rightarrow> string \<Rightarrow> Resource list" where
  "course_resources s i =
     order_desc resource_createdAt (filter (\<lambda>r. resource_courseId r = i) (resources s))"

definition course_comments :: "store \<Rightarrow> string \<Rightarrow> Comment list" where
  "course_comments s i =
     order_desc comment_createdAt (filter (\<lambda>c. comment_courseId c = i) (comments s))"

text \<open>The select \<open>{id, name}\<close> of the user a row refers to.\<close>

record UserRef =
  ref_id :: string
  ref_name :: string

definition select_ref :: "store \<Rightarrow> string \<Rightarrow> UserRef option" where
  "select_ref s i =
     map_option (\<lambda>u. \<lparr>ref_id = user_id u, ref_name = user_name u\<rparr>) (user_findUnique s i)"

text \<open>
  \<open>prisma.course.update({ where: { id }, data })\<close>: the fields present in \<open>data\<close> are
  overwritten.
\<close>

record CourseData =
  data_title :: "string option"
  data_description :: "string option"
  data_category :: "string option"

definition apply_data :: "CourseData \<Rightarrow> Course \<Rightarrow> Course" where
  "apply_data d c =
     c\<lparr>course_title := (case data_title d of None \<Rightarrow> course_title c | Some t \<Rightarrow> t),
       course_description := (case data_description d of None \<Rightarrow> course_description c | Some t \<Rightarrow> t),
       course_category := (case data_category d of None \<Rightarrow> course_category c | Some t \<Rightarrow> t)\<rparr>"

definition course_update :: "store \<Rightarrow> string \<Rightarrow> CourseData \<Rightarrow> store" where
  "course_update s i d =
     s\<lparr>courses := map (\<lambda>c. if course_id c = i then apply_data d c else c) (courses s)\<rparr>"

text \<open>
  \<open>prisma.course.delete({ where: { id } })\<close>: the foreign keys of Resource and Comment
  are declared ON DELETE CASCADE.
\<close>

definition course_delete :: "store \<Rightarrow> string \<Rightarrow> store" where
  "course_delete s i =
     s\<lparr>courses := filter (\<lambda>c. course_id c \<noteq> i) (courses s),
       resources := filter (\<lambda>r. resource_courseId r \<noteq> i) (resources s),
       comments := filter (\<lambda>c. comment_courseId c \<noteq> i) (comments s)\<rparr>"

definition resource_delete :: "store \<Rightarrow> string \<Rightarrow> store" where
  "resource_delete s i = s\<lparr>resources := filter (\<lambda>r. resource_id r \<noteq> i) (resources s)\<rparr>"

definition comment_delete :: "store \<Rightarrow> string \<Rightarrow> store" where
  "comment_delete s i = s\<lparr>comments := filter (\<lambda>c. comment_id c \<noteq> i) (comments s)\<rparr>"

section \<open>server: the authenticate hook\<close>

text \<open>
  \<open>request.user\<close> is the payload of the verified token; it is absent when
  \<open>request.jwtVerify()\<close> throws (cookie missing, malformed or expired), and then the
  hook replies 401 and the handler does not run.
\<close>

definition authenticate :: "TokenPayload option \<Rightarrow> reply_error option" where
  "authenticate user =
     (case user of None \<Rightarrow> Some (HttpError 401 ''Neautorizat'') | Some u \<Rightarrow> None)"

section \<open>course.routes\<close>

definition requireProfessor :: "TokenPayload option \<Rightarrow> reply_error option" where
  "requireProfessor user =
     (if map_option role user \<noteq> Some PROFESSOR
      then Some (HttpError 403 ''Doar profesorii pot crea sau modifica cursuri'')
      else None)"

text \<open>\<open>x?.trim()\<close> and \<open>(x || "").trim()\<close>\<close>

definition trim_opt :: "string option \<Rightarrow> string option" where
  "trim_opt x = map_option trim x"

definition or_empty :: "string option \<Rightarrow> string" where
  "or_empty x = (case x of None \<Rightarrow> [] | Some v \<Rightarrow> if v = [] then [] else v)"

subsection \<open>GET /courses\<close>

record CourseSummary =
  sum_course :: Course
  sum_owner :: "UserRef option"
  count_resources :: nat
  count_comments :: nat

definition courses_where :: "string option \<Rightarrow> string option \<Rightarrow> CourseWhere list" where
  "courses_where search category =
     (let searchValue = trim_opt search; categoryValue = trim_opt category
      in (if \<not> falsy searchValue
          then [OR [Title (Contains (the searchValue) Insensitive),
                    Description (Contains (the searchValue) Insensitive)]]
          else [])
         @ (if \<not> falsy categoryValue
            then [Category (Equals (the categoryValue) Insensitive)]
            else []))"

text \<open>The handler does not catch: when the query throws the reply is the 500.\<close>

definition GET_courses ::
  "store \<Rightarrow> string option \<Rightarrow> string option \<Rightarrow> reply_error + CourseSummary list" where
  "GET_courses s search category =
     (case course_findMany s (courses_where search category) of
        None \<Rightarrow> Inl InternalServerError
      | Some found \<Rightarrow>
          Inr (map (\<lambda>c. \<lparr>sum_course = c,
                         sum_owner = select_ref s (course_ownerId c),
                         count_resources =
                           length (filter (\<lambda>r. resource_courseId r = course_id c) (resources s)),
                         count_comments =
                           length (filter (\<lambda>m. comment_courseId m = course_id c) (comments s))\<rparr>)
                   found))"

subsection \<open>GET /courses/:id\<close>

record CommentWithUser =
  cu_comment :: Comment
  cu_user :: "UserRef option"

record CourseDetail =
  det_course :: Course
  det_owner :: "UserRef option"
  det_resources :: "Resource list"
  det_comments :: "CommentWithUser list"

definition GET_course :: "store \<Rightarrow> string \<Rightarrow> reply_error + CourseDetail" where
  "GET_course s i =
     (case course_findUnique s i of
        None \<Rightarrow> Inl (HttpError 404 ''Curs inexistent'')
      | Some course \<Rightarrow>
          Inr \<lparr>det_course = course,
               det_owner = select_ref s (course_ownerId course),
               det_resources = course_resources s (course_id course),
               det_comments =
                 map (\<lambda>m. \<lparr>cu_comment = m, cu_user = select_ref s (comment_userId m)\<rparr>)
                     (course_comments s (course_id course))\<rparr>)"

subsection \<open>POST /courses\<close>

record CourseBody =
  body_title :: "string option"
  body_description :: "string option"
  body_category :: "string option"

definition body_field :: "('b \<Rightarrow> 'a option) \<Rightarrow> 'b option \<Rightarrow> 'a option" where
  "body_field f body = (case body of None \<Rightarrow> None | Some b \<Rightarrow> f b)"

text \<open>
  The primary key \<open>new_id\<close> and the time stamp \<open>now\<close> that the database gives a new
  row are parameters of the routes that create one.
\<close>

definition POST_courses ::
  "string \<Rightarrow> nat \<Rightarrow> store \<Rightarrow> TokenPayload option \<Rightarrow> CourseBody option
     \<Rightarrow> (reply_error + Course) \<times> store" where
  "POST_courses new_id now s user body =
     (case authenticate user of
        Some unauthorized \<Rightarrow> (Inl unauthorized, s)
      | None \<Rightarrow>
          (case requireProfessor user of
             Some deny \<Rightarrow> (Inl deny, s)
           | None \<Rightarrow>
               let title = trim (or_empty (body_field body_title body));
                   description = trim (or_empty (body_field body_description body));
                   category = trim (or_empty (body_field body_category body))
               in if title = [] \<or> description = [] \<or> category = []
                  then (Inl (HttpError 400 ''title, description si category sunt obligatorii''), s)
                  else
                    let course = \<lparr>course_id = new_id, course_title = title,
                                   course_description = description, course_category = category,
                                   course_createdAt = now, course_ownerId = sub (the user)\<rparr>
                    in (Inr course, s\<lparr>courses := courses s @ [course]\<rparr>)))"

subsection \<open>PUT /courses/:id\<close>

text \<open>
  The three fields are checked one after the other; each check returns at once with its
  own message, before \<open>data\<close> is given to the single update at the end.
\<close>

definition PUT_course ::
  "store \<Rightarrow> TokenPayload option \<Rightarrow> string \<Rightarrow> CourseBody option
     \<Rightarrow> (reply_error + Course) \<times> store" where
  "PUT_course s user i body =
     (case authenticate user of
        Some unauthorized \<Rightarrow> (Inl unauthorized, s)
      | None \<Rightarrow>
          (case course_findUnique s i of
             None \<Rightarrow> (Inl (HttpError 404 ''Curs inexistent''), s)
           | Some course \<Rightarrow>
               if course_ownerId course \<noteq> sub (the user)
               then (Inl (HttpError 403 ''Nu ai acces la acest curs''), s)
               else
                 let data0 = \<lparr>data_title = None, data_description = None, data_category = None\<rparr>
                 in if body_field body_title body \<noteq> None \<and> trim (the (body_field body_title body)) = []
                    then (Inl (HttpError 400 ''title invalid''), s)
                    else
                      let data1 = data0\<lparr>data_title := trim_opt (body_field body_title body)\<rparr>
                      in if body_field body_description body \<noteq> None
                            \<and> trim (the (body_field body_description body)) = []
                         then (Inl (HttpError 400 ''description invalid''), s)
                         else
                           let data2 = data1\<lparr>data_description := trim_opt (body_field body_description body)\<rparr>
                           in if body_field body_category body \<noteq> None
                                 \<and> trim (the (body_field body_category body)) = []
                              then (Inl (HttpError 400 ''category invalid''), s)
                              else
                                let data3 = data2\<lparr>data_category := trim_opt (body_field body_category body)\<rparr>
                                in (Inr (apply_data data3 course), course_update s i data3)))"

subsection \<open>DELETE /courses/:id\<close>

definition DELETE_course ::
  "store \<Rightarrow> TokenPayload option \<Rightarrow> string \<Rightarrow> (reply_error + string) \<times> store" where
  "DELETE_course s user i =
     (case authenticate user of
        Some unauthorized \<Rightarrow> (Inl unauthorized, s)
      | None \<Rightarrow>
          (case course_findUnique s i of
             None \<Rightarrow> (Inl (HttpError 404 ''Curs inexistent''), s)
           | Some course \<Rightarrow>
               if course_ownerId course \<noteq> sub (the user)
               then (Inl (HttpError 403 ''Nu ai acces la acest curs''), s)
               else (Inr ''Deleted'', course_delete s i)))"

subsection \<open>POST /courses/:id/resources\<close>

record ResourceBody =
  rbody_title :: "string option"
  rbody_url :: "string option"
  rbody_type :: "ResourceType option"

definition POST_resource ::
  "string \<Rightarrow> nat \<Rightarrow> store \<Rightarrow> TokenPayload option \<Rightarrow> string \<Rightarrow> ResourceBody option
     \<Rightarrow> (reply_error + Resource) \<times> store" where
  "POST_resource new_id now s user i body =
     (case authenticate user of
        Some unauthorized \<Rightarrow> (Inl unauthorized, s)
      | None \<Rightarrow>
          (case course_findUnique s i of
             None \<Rightarrow> (Inl (HttpError 404 ''Curs inexistent''), s)
           | Some course \<Rightarrow>
               if course_ownerId course \<noteq> sub (the user)
               then (Inl (HttpError 403 ''Nu ai acces la acest curs''), s)
               else
                 let title = trim (or_empty (body_field rbody_title body));
                     url = trim (or_empty (body_field rbody_url body));
                     type = body_field rbody_type body
                 in if title = [] \<or> url = [] \<or> type = None
                    then (Inl (HttpError 400 ''title, url si type sunt obligatorii''), s)
                    else
                      let resource = \<lparr>resource_id = new_id, resource_title = title,
                                       resource_url = url, resource_type = the type,
                                       resource_createdAt = now, resource_courseId = i\<rparr>
                      in (Inr resource, s\<lparr>resources := resources s @ [resource]\<rparr>)))"

subsection \<open>DELETE /resources/:id\<close>

definition DELETE_resource ::
  "store \<Rightarrow> TokenPayload option \<Rightarrow> string \<Rightarrow> (reply_error + string) \<times> store" where
  "DELETE_resource s user i =
     (case authenticate user of
        Some unauthorized \<Rightarrow> (Inl unauthorized, s)
      | None \<Rightarrow>
          (case resource_findUnique s i of
             None \<Rightarrow> (Inl (HttpError 404 ''Resursa inexistenta''), s)
           | Some resource \<Rightarrow>
               (case course_findUnique s (resource_courseId resource) of
                  None \<Rightarrow> (Inl (HttpError 403 ''Nu ai acces la aceasta resursa''), s)
                | Some course \<Rightarrow>
                    if course_ownerId course \<noteq> sub (the user)
                    then (Inl (HttpError 403 ''Nu ai acces la aceasta resursa''), s)
                    else (Inr ''Deleted'', resource_delete s i))))"

subsection \<open>POST /courses/:id/comments\<close>

definition POST_comment ::
  "string \<Rightarrow> nat \<Rightarrow> store \<Rightarrow> TokenPayload option \<Rightarrow> string \<Rightarrow> string option option
     \<Rightarrow> (reply_error + Comment) \<times> store" where
  "POST_comment new_id now s user i body =
     (case authenticate user of
        Some unauthorized \<Rightarrow> (Inl unauthorized, s)
      | None \<Rightarrow>
          (case course_findUnique s i of
             None \<Rightarrow> (Inl (HttpError 404 ''Curs inexistent''), s)
           | Some course \<Rightarrow>
               let content = trim (or_empty (body_field (\<lambda>c. c) body))
               in if content = []
                  then (Inl (HttpError 400 ''content este obligatoriu''), s)
                  else
                    let comment = \<lparr>comment_id = new_id, comment_content = content,
                                    comment_createdAt = now, comment_courseId = i,
                                    comment_userId = sub (the user)\<rparr>
                    in (Inr comment, s\<lparr>comments := comments s @ [comment]\<rparr>)))"

subsection \<open>DELETE /comments/:id\<close>

definition DELETE_comment ::
  "store \<Rightarrow> TokenPayload option \<Rightarrow> string \<Rightarrow> (reply_error + string) \<times> store" where
  "DELETE_comment s user i =
     (case authenticate user of
        Some unauthorized \<Rightarrow> (Inl unauthorized, s)
      | None \<Rightarrow>
          (case comment_findUnique s i of
             None \<Rightarrow> (Inl (HttpError 404 ''Comentariu inexistent''), s)
           | Some comment \<Rightarrow>
               if comment_userId comment \<noteq> sub (the user)
               then (Inl (HttpError 403 ''Nu ai acces la acest comentariu''), s)
               else (Inr ''Deleted'', comment_delete s i)))"

section \<open>Sample data\<close>

text \<open>
  A small database and stand-ins for bcrypt, used to evaluate the handlers on concrete
  requests. \<open>plain_compare p h\<close> accepts exactly the hash that \<open>plain_hash p\<close> makes.
\<close>

definition plain_hash :: "string \<Rightarrow> string" where
  "plain_hash p = ''h:'' @ p"

definition plain_compare :: "string \<Rightarrow> string \<Rightarrow> bool" where
  "plain_compare p h = (h = ''h:'' @ p)"

definition ana :: User where
  "ana = \<lparr>user_id = ''u1'', user_email = ''ana@test.com'', user_name = ''Ana'',
          user_password = ''h:secret'', user_role = STUDENT\<rparr>"

definition prof :: User where
  "prof = \<lparr>user_id = ''u2'', user_email = ''prof@test.com'', user_name = ''Test Profesor'',
           user_password = ''h:test1234'', user_role = PROFESSOR\<rparr>"

definition ana_claim :: TokenPayload where
  "ana_claim = \<lparr>sub = ''u1'', email = ''ana@test.com'', name = ''Ana'', role = STUDENT\<rparr>"

definition prof_claim :: TokenPayload where
  "prof_claim =
     \<lparr>sub = ''u2'', email = ''prof@test.com'', name = ''Test Profesor'', role = PROFESSOR\<rparr>"

definition web_course :: Course where
  "web_course =
     \<lparr>course_id = ''c1'', course_title = ''Introducere in Web Dev'',
      course_description = ''HTML, CSS si JavaScript'', course_category = ''Web'',
      course_createdAt = 100, course_ownerId = ''u2''\<rparr>"

definition db_course :: Course where
  "db_course =
     \<lparr>course_id = ''c2'', course_title = ''Baze de date'',
      course_description = ''SQL pentru incepatori'', course_category = ''Data'',
      course_createdAt = 200, course_ownerId = ''u2''\<rparr>"

definition html_guide :: Resource where
  "html_guide =
     \<lparr>resource_id = ''r1'', resource_title = ''Ghid HTML'', resource_url = ''https://a.test/html'',
      resource_type = LINK, resource_createdAt = 110, resource_courseId = ''c1''\<rparr>"

definition css_basics :: Resource where
  "css_basics =
     \<lparr>resource_id = ''r2'', resource_title = ''CSS Basics'', resource_url = ''https://a.test/css'',
      resource_type = LINK, resource_createdAt = 120, resource_courseId = ''c1''\<rparr>"

definition sql_video :: Resource where
  "sql_video =
     \<lparr>resource_id = ''r3'', resource_title = ''SQL'', resource_url = ''https://a.test/sql'',
      resource_type = VIDEO, resource_createdAt = 210, resource_courseId = ''c2''\<rparr>"

definition first_comment :: Comment where
  "first_comment =
     \<lparr>comment_id = ''m1'', comment_content = ''Cursul e clar'', comment_createdAt = 130,
      comment_courseId = ''c1'', comment_userId = ''u2''\<rparr>"

definition second_comment :: Comment where
  "second_comment =
     \<lparr>comment_id = ''m2'', comment_content = ''Multumesc'', comment_createdAt = 140,
      comment_courseId = ''c1'', comment_userId = ''u1''\<rparr>"

definition store0 :: store where
  "store0 =
     \<lparr>users = [], courses = [], resources = [], comments = [], db_lower = toLowerChar\<rparr>"

definition store1 :: store where
  "store1 =
     \<lparr>users = [ana, prof], courses = [web_course, db_course],
      resources = [html_guide, css_basics, sql_video],
      comments = [first_comment, second_comment], db_lower = toLowerChar\<rparr>"

definition reg_ana :: RegisterBody where
  "reg_ana =
     \<lparr>reg_email = Some ''ana@test.com'', reg_password = Some ''secret'',
      reg_name = Some ''Ana'', reg_role = None\<rparr>"

definition blank_body :: CourseBody where
  "blank_body = \<lparr>body_title = Some [], body_description = None, body_category = Some '' ''\<rparr>"

definition half_blank_body :: CourseBody where
  "half_blank_body =
     \<lparr>body_title = Some ''Web 2'', body_description = Some ''  '', body_category = None\<rparr>"

section \<open>Auxiliary facts\<close>

lemma find_None_forall: "find P xs = None \<longleftrightarrow> (\<forall>x \<in> set xs. \<not> P x)"
  by (induction xs) auto

lemma find_Some_member: "find P xs = Some x \<Longrightarrow> x \<in> set xs \<and> P x"
  by (induction xs) (auto split: if_splits)

lemma order_desc_mset: "mset (order_desc key xs) = mset xs"
  by (simp add: order_desc_def)

lemma order_desc_sorted: "sorted_wrt (\<lambda>a b. key b \<le> key a) (order_desc key xs)"
proof -
  have "sorted (map key (sort_key key xs))" by simp
  then have "sorted_wrt (\<lambda>a b. key a \<le> key b) (sort_key key xs)"
    by (simp add: sorted_map)
  then show ?thesis
    by (simp add: order_desc_def sorted_wrt_rev)
qed

lemma find_ana: "user_findUnique_email store1 ''ana@test.com'' = Some ana"
  by (simp add: user_findUnique_email_def store1_def ana_def prof_def)

lemma find_web_course: "course_findUnique store1 ''c1'' = Some web_course"
  by (simp add: course_findUnique_def store1_def web_course_def)

lemma register_Inr_user:
  assumes "register hash i s body = (Inr p, s1)"
  shows "\<exists>b u. body = Some b \<and> reg_email b = Some (user_email u) \<and> u \<in> set (users s1)"
proof (cases body)
  case None
  with assms show ?thesis
    by (simp add: register_def falsy_def)
next
  case (Some b)
  let ?u = "\<lparr>user_id = i, user_email = the (reg_email b), user_name = the (reg_name b),
             user_password = hash (the (reg_password b)),
             user_role = (if reg_role b = Some ''PROFESSOR'' then PROFESSOR else STUDENT)\<rparr>"
  from assms Some have ne: "\<not> falsy (reg_email b)" and s1: "s1 = s\<lparr>users := users s @ [?u]\<rparr>"
    by (auto simp: register_def Let_def split: if_splits option.splits)
  from ne have "reg_email b = Some (user_email ?u)"
    by (cases "reg_email b") (simp_all add: falsy_def)
  moreover from s1 have "?u \<in> set (users s1)" by simp
  ultimately show ?thesis using Some by blast
qed

lemma register_reg_ana:
  "register plain_hash ''u1'' store0 (Some reg_ana)
     = (Inr (select_public ana), store0\<lparr>users := [ana]\<rparr>)"
  by (simp add: register_def falsy_def user_findUnique_email_def store0_def reg_ana_def ana_def
      plain_hash_def Let_def)

text \<open>The pattern match on a pattern without special characters.\<close>

lemma MatchText_literal:
  "\<not> list_ex like_special p \<Longrightarrow>
     MatchText t p = (if t = p then LIKE_TRUE else if prefix t p then LIKE_ABORT else LIKE_FALSE)"
proof (induction p arbitrary: t)
  case Nil
  then show ?case by (cases t) simp_all
next
  case (Cons q p)
  then show ?case
    by (cases t) (auto simp: like_special_def)
qed

lemma MatchText_literal_prefix:
  "\<not> list_ex like_special v \<Longrightarrow>
     MatchText t (v @ ''%'') =
       (if prefix v t then LIKE_TRUE else if prefix t v then LIKE_ABORT else LIKE_FALSE)"
proof (induction v arbitrary: t)
  case Nil
  then show ?case by (cases t) simp_all
next
  case (Cons q v)
  then show ?case
    by (cases t) (auto simp: like_special_def)
qed

lemma first_match_literal:
  "\<not> list_ex like_special (f # v) \<Longrightarrow>
     first_match f t (f # v @ ''%'') = (if sublist (f # v) t then LIKE_TRUE else LIKE_ABORT)"
proof (induction t)
  case Nil
  then show ?case by simp
next
  case (Cons c t)
  have m: "MatchText (c # t) ((f # v) @ ''%'') =
       (if prefix (f # v) (c # t) then LIKE_TRUE
        else if prefix (c # t) (f # v) then LIKE_ABORT else LIKE_FALSE)"
    using Cons.prems by (rule MatchText_literal_prefix)
  have short: "\<not> sublist (f # v) (c # t)" if "prefix (c # t) (f # v)" "\<not> prefix (f # v) (c # t)"
  proof
    assume "sublist (f # v) (c # t)"
    then have "length (f # v) \<le> length (c # t)" by (rule sublist_length_le)
    moreover from that(1) have "length (c # t) \<le> length (f # v)" by (rule prefix_length_le)
    ultimately have "length (c # t) = length (f # v)" by simp
    with that(1) have "c # t = f # v"
      by (auto simp: prefix_def)
    with that(2) show False by simp
  qed
  show ?case
  proof (cases "c = f")
    case True
    with Cons m short show ?thesis
      by (auto simp: sublist_Cons_right simp del: MatchText.simps)
  next
    case False
    with Cons show ?thesis
      by (auto simp: sublist_Cons_right)
  qed
qed

lemma MatchText_contains_literal:
  assumes "\<not> list_ex like_special v" "v \<noteq> []"
  shows "MatchText t (''%'' @ v @ ''%'') = (if sublist v t then LIKE_TRUE else LIKE_ABORT)"
proof -
  from assms obtain f v' where v: "v = f # v'" by (cases v) auto
  show ?thesis
  proof (cases t)
    case Nil
    with v assms show ?thesis by (simp add: like_special_def)
  next
    case (Cons c t')
    with v assms first_match_literal [of f v' t] show ?thesis
      by (auto simp: like_special_def)
  qed
qed

lemma like_special_toLowerChar: "like_special (toLowerChar c) = like_special c"
proof (cases "65 \<le> (of_char c :: nat) \<and> (of_char c :: nat) \<le> 90")
  case False
  then show ?thesis by (auto simp: toLowerChar_def Let_def)
next
  case True
  then have c: "\<not> like_special c"
    by (auto simp: like_special_def)
  from True have "(of_char (char_of (of_char c + 32 :: nat)) :: nat) = of_char c + 32"
    by simp
  moreover have "(of_char d :: nat) \<in> {37, 95, 92}" if "like_special d" for d
    using that by (auto simp: like_special_def)
  ultimately have "\<not> like_special (char_of (of_char c + 32 :: nat))"
    using True by fastforce
  then show ?thesis using c True by (simp add: toLowerChar_def Let_def)
qed

lemma plain_lower_toLowerChar: "plain_lower toLowerChar"
  unfolding plain_lower_def
proof (intro allI conjI impI)
  fix c
  assume "like_special c"
  then show "toLowerChar c = c"
    by (auto simp: like_special_def toLowerChar_def)
next
  fix c
  assume "\<not> like_special c"
  then show "\<not> like_special (toLowerChar c)"
    by (simp add: like_special_toLowerChar)
qed

lemma plain_lower_special: "plain_lower lo \<Longrightarrow> like_special (lo c) = like_special c"
  by (cases "like_special c") (simp_all add: plain_lower_def)

lemma plain_lower_percent: "plain_lower lo \<Longrightarrow> lo CHR ''%'' = CHR ''%''"
  by (simp add: plain_lower_def like_special_def)


lemma list_ex_like_special_lower:
  "plain_lower lo \<Longrightarrow> list_ex like_special (map lo v) = list_ex like_special v"
  by (induction v) (simp_all add: plain_lower_special)










lemma contains_literal:
  assumes "plain_lower lo" "\<not> list_ex like_special v" "v \<noteq> []"
  shows "matches_filter lo (Contains v Insensitive) x = Some (sublist (map lo v) (map lo x))"
proof -
  have "map lo (''%'' @ v @ ''%'') = ''%'' @ map lo v @ ''%''"
    by (simp add: plain_lower_percent [OF assms(1)])
  moreover have "\<not> list_ex like_special (map lo v)" "map lo v \<noteq> []"
    using assms by (simp_all add: list_ex_like_special_lower)
  ultimately have "MatchText (map lo x) (map lo (''%'' @ v @ ''%'')) =
      (if sublist (map lo v) (map lo x) then LIKE_TRUE else LIKE_ABORT)"
    using MatchText_contains_literal [of "map lo v" "map lo x"] by simp
  then show ?thesis
    by (simp add: in_mode_def like_bool_def del: MatchText.simps)
qed

lemma equals_literal:
  assumes "plain_lower lo" "\<not> list_ex like_special v"
  shows "matches_filter lo (Equals v Insensitive) x = Some (map lo x = map lo v)"
  using assms
  by (simp add: like_bool_def MatchText_literal list_ex_like_special_lower)

text \<open>What the \<open>where\<close> clause of GET /courses selects.\<close>

lemma where_holds_courses_where:
  "where_holds lo (courses_where search category) c =
     all_of
       ((if falsy (trim_opt category) then []
         else [matches_filter lo (Equals (the (trim_opt category)) Insensitive)
                 (course_category c)])
        @ (if falsy (trim_opt search) then []
           else [any_of [matches_filter lo (Contains (the (trim_opt search)) Insensitive)
                           (course_title c),
                         matches_filter lo (Contains (the (trim_opt search)) Insensitive)
                           (course_description c)]]))"
  by (simp add: where_holds_def courses_where_def Let_def del: matches_filter.simps)

lemma courses_where_literal:
  assumes lo: "plain_lower lo"
    and "\<not> list_ex like_special (or_empty (trim_opt search))"
    and "\<not> list_ex like_special (or_empty (trim_opt category))"
  shows "where_holds lo (courses_where search category) c =
     Some ((case search of None \<Rightarrow> True
            | Some x \<Rightarrow> sublist (map lo (trim x)) (map lo (course_title c))
                      \<or> sublist (map lo (trim x)) (map lo (course_description c)))
         \<and> (case category of None \<Rightarrow> True
            | Some y \<Rightarrow> trim y = [] \<or> map lo (course_category c) = map lo (trim y)))"
proof -
  have a: "(if falsy (trim_opt search) then []
         else [any_of [matches_filter lo (Contains (the (trim_opt search)) Insensitive)
                         (course_title c),
                       matches_filter lo (Contains (the (trim_opt search)) Insensitive)
                         (course_description c)]])
       = (if falsy (trim_opt search) then []
          else [Some (case search of None \<Rightarrow> True
            | Some x \<Rightarrow> sublist (map lo (trim x)) (map lo (course_title c))
                      \<or> sublist (map lo (trim x)) (map lo (course_description c)))])"
  proof (cases search)
    case None
    then show ?thesis by (simp add: trim_opt_def falsy_def)
  next
    case (Some x)
    show ?thesis
    proof (cases "trim x = []")
      case True
      with Some show ?thesis by (simp add: trim_opt_def falsy_def)
    next
      case False
      from Some assms(2) have "\<not> list_ex like_special (trim x)"
        by (simp add: trim_opt_def or_empty_def)
      moreover have "any_of [Some u, Some v] = Some (u \<or> v)" for u v
        by (cases u; cases v) simp_all
      ultimately show ?thesis
        using Some False lo
        by (simp add: contains_literal trim_opt_def falsy_def del: matches_filter.simps)
    qed
  qed
  have b: "(if falsy (trim_opt category) then []
           else [matches_filter lo (Equals (the (trim_opt category)) Insensitive)
                   (course_category c)])
       = (if falsy (trim_opt category) then []
          else [Some (map lo (course_category c) = map lo (the (trim_opt category)))])"
  proof (cases category)
    case None
    then show ?thesis by (simp add: trim_opt_def falsy_def)
  next
    case (Some y)
    with assms(3) have "\<not> list_ex like_special (trim y)"
      by (simp add: trim_opt_def or_empty_def split: if_splits)
    from equals_literal [OF lo this] Some show ?thesis
      by (simp add: trim_opt_def del: matches_filter.simps)
  qed
  have r: "all_of ((if q then [] else [Some v]) @ (if p then [] else [Some u]))
       = Some ((p \<or> u) \<and> (q \<or> v))" for p q u v
    by (cases p; cases q; cases u; cases v) simp_all
  show ?thesis
    unfolding where_holds_courses_where a b r
    by (cases search; cases category) (auto simp: trim_opt_def falsy_def)
qed



text \<open>A PUT that replies with an error has not written.\<close>

lemma PUT_course_error_keeps_store:
  "fst (PUT_course s user i body) = Inl e \<Longrightarrow> snd (PUT_course s user i body) = s"
  by (auto simp: PUT_course_def Let_def split: option.splits if_splits)

section \<open>Login: the same failure for an unknown email and a wrong password\<close>

text \<open>
  Claim C1, as written: every login request with a nonexistent email, and every login
  request with a wrong password for an existing email, is answered 401 with the same
  message. The required-field check comes first in \<open>login\<close>: for the existing account
  of \<open>ana\<close> the empty password is a wrong password, and the answer is 400.
\<close>

theorem login_empty_password_is_invalid_input:
  "user_findUnique_email store1 ''ana@test.com'' = Some ana
   \<and> \<not> plain_compare [] (user_password ana)
   \<and> login plain_compare store1
        (Some \<lparr>login_email = Some ''ana@test.com'', login_password = Some []\<rparr>)
       = Inl (HttpError 400 ''email si password sunt obligatorii'')"
  by (simp add: login_def falsy_def user_findUnique_email_def store1_def ana_def prof_def
      plain_compare_def)

text \<open>
  Claim C1, amended: for login requests whose email and password are both non-empty, a
  nonexistent email and a wrong password for an existing email are both answered with
  status 401 and the identical message.
\<close>

theorem login_enumeration_resistance:
  assumes "e1 \<noteq> []" "p1 \<noteq> []" "e2 \<noteq> []" "p2 \<noteq> []"
    and "user_findUnique_email s e1 = None"
    and "user_findUnique_email s e2 = Some u" "\<not> compare p2 (user_password u)"
  shows "login compare s (Some \<lparr>login_email = Some e1, login_password = Some p1\<rparr>)
           = Inl (HttpError 401 ''Email sau parola invalide'')
       \<and> login compare s (Some \<lparr>login_email = Some e2, login_password = Some p2\<rparr>)
           = Inl (HttpError 401 ''Email sau parola invalide'')"
  using assms by (simp add: login_def falsy_def)

theorem login_enumeration_resistance_witness:
  "login plain_compare store1
      (Some \<lparr>login_email = Some ''nobody@test.com'', login_password = Some ''secret''\<rparr>)
     = Inl (HttpError 401 ''Email sau parola invalide'')
   \<and> login plain_compare store1
      (Some \<lparr>login_email = Some ''ana@test.com'', login_password = Some ''guess''\<rparr>)
     = Inl (HttpError 401 ''Email sau parola invalide'')"
proof -
  have a: "user_findUnique_email store1 ''nobody@test.com'' = None"
    by (simp add: user_findUnique_email_def store1_def ana_def prof_def)
  have c: "\<not> plain_compare ''guess'' (user_password ana)"
    by (simp add: plain_compare_def ana_def)
  show ?thesis
    using a find_ana c
      login_enumeration_resistance [of "''nobody@test.com''" "''secret''" "''ana@test.com''"
        "''guess''" store1 ana plain_compare]
    by simp
qed

section \<open>Register: required fields\<close>

text \<open>
  Claim C6: a register request in which email, password or name is blank fails with 400
  and creates no account. The code does not do this for a field of white space only.
  \<open>register\<close> tests \<open>!field\<close> on the fields as they arrive; it does not trim them
  first, as every course route does before the same test. At the request below the name
  is a single space, which \<open>trim\<close> makes empty: the reply is the 201 with the new
  user, and the account is stored with that name.
\<close>

theorem register_white_space_name_is_accepted:
  "trim '' '' = []
   \<and> register plain_hash ''u3'' store1
      (Some \<lparr>reg_email = Some ''dan@test.com'', reg_password = Some ''pw'',
             reg_name = Some '' '', reg_role = None\<rparr>)
     = (Inr \<lparr>pub_id = ''u3'', pub_email = ''dan@test.com'', pub_name = '' '', pub_role = STUDENT\<rparr>,
        store1\<lparr>users := users store1 @
          [\<lparr>user_id = ''u3'', user_email = ''dan@test.com'', user_name = '' '',
            user_password = ''h:pw'', user_role = STUDENT\<rparr>]\<rparr>)"
  by (simp add: register_def falsy_def user_findUnique_email_def store1_def ana_def prof_def
      select_public_def plain_hash_def Let_def trim_def is_space_def)

text \<open>
  What \<open>register\<close> does reject: a request in which email, password or name is missing
  or the empty string, and a request without a body. The reply is 400 and the store is
  unchanged.
\<close>

lemma register_missing_field_invalid_input:
  assumes "falsy (reg_email b) \<or> falsy (reg_password b) \<or> falsy (reg_name b)"
  shows "register hash new_id s (Some b)
           = (Inl (HttpError 400 ''email, password, name sunt obligatorii''), s)
       \<and> register hash new_id s None
           = (Inl (HttpError 400 ''email, password, name sunt obligatorii''), s)"
  using assms by (simp add: register_def falsy_def)

lemma register_missing_field_invalid_input_example:
  "register plain_hash ''u3'' store1
      (Some \<lparr>reg_email = Some ''dan@test.com'', reg_password = Some ''pw'',
             reg_name = Some [], reg_role = None\<rparr>)
     = (Inl (HttpError 400 ''email, password, name sunt obligatorii''), store1)"
  using register_missing_field_invalid_input
    [of "\<lparr>reg_email = Some ''dan@test.com'', reg_password = Some ''pw'',
          reg_name = Some [], reg_role = None\<rparr>" plain_hash "''u3''" store1]
  by (simp add: falsy_def)

section \<open>Register: duplicate email\<close>

text \<open>
  Claim C7, as written: after a successful register, a second register with the same
  email returns 409 whatever the other fields are. The required-field check comes before
  the lookup of the email: a second request with an empty password is answered 400.
\<close>

theorem register_twice_blank_password_is_invalid_input:
  "register plain_hash ''u1'' store0 (Some reg_ana)
     = (Inr (select_public ana), store0\<lparr>users := [ana]\<rparr>)
   \<and> register plain_hash ''u9'' (store0\<lparr>users := [ana]\<rparr>)
        (Some (reg_ana\<lparr>reg_password := Some []\<rparr>))
     = (Inl (HttpError 400 ''email, password, name sunt obligatorii''), store0\<lparr>users := [ana]\<rparr>)"
  by (simp add: register_def falsy_def user_findUnique_email_def store0_def reg_ana_def ana_def
      plain_hash_def Let_def)

text \<open>
  Claim C7, amended: after a successful register, as long as no account is removed, a
  second register with the same email creates no account; it returns 409 when its
  password and name are present and non-empty, whatever they and the role are, and 400
  otherwise.
\<close>

theorem register_same_email_conflict:
  assumes first: "register hash1 i1 s (Some b1) = (Inr p, s1)"
    and later: "set (users s1) \<subseteq> set (users s2)"
    and same: "reg_email b2 = reg_email b1"
  shows "register hash2 i2 s2 (Some b2) =
           (if falsy (reg_password b2) \<or> falsy (reg_name b2)
            then Inl (HttpError 400 ''email, password, name sunt obligatorii'')
            else Inl (HttpError 409 ''Email deja folosit''), s2)"
proof -
  from register_Inr_user [OF first] obtain u where
    e: "reg_email b1 = Some (user_email u)" and u: "u \<in> set (users s1)" by auto
  from first have ne: "\<not> falsy (reg_email b1)"
    by (auto simp: register_def Let_def split: if_splits)
  from u later have "u \<in> set (users s2)" by auto
  then have "find (\<lambda>x. user_email x = user_email u) (users s2) \<noteq> None"
    by (auto simp: find_None_forall)
  then obtain x where "user_findUnique_email s2 (user_email u) = Some x"
    by (auto simp: user_findUnique_email_def)
  with e same ne show ?thesis
    by (simp add: register_def)
qed

theorem register_same_email_conflict_witness:
  "register plain_hash ''u9'' (store0\<lparr>users := [ana]\<rparr>)
      (Some (reg_ana\<lparr>reg_name := Some ''Other'', reg_role := Some ''PROFESSOR''\<rparr>))
     = (Inl (HttpError 409 ''Email deja folosit''), store0\<lparr>users := [ana]\<rparr>)"
  using register_same_email_conflict [OF register_reg_ana, of "store0\<lparr>users := [ana]\<rparr>"
      "reg_ana\<lparr>reg_name := Some ''Other'', reg_role := Some ''PROFESSOR''\<rparr>" plain_hash "''u9''"]
  by (simp add: reg_ana_def falsy_def)

section \<open>Course routes: who may do what\<close>

text \<open>
  Claim C3: an authenticated request to POST /courses whose identity claim has role
  STUDENT is answered 403 and the store is unchanged, whatever the body is; a body with
  blank fields gets 403 as well, not 400.
\<close>

theorem student_post_course_forbidden:
  assumes "role u = STUDENT"
  shows "POST_courses new_id now s (Some u) body =
           (Inl (HttpError 403 ''Doar profesorii pot crea sau modifica cursuri''), s)"
  using assms by (simp add: POST_courses_def authenticate_def requireProfessor_def)

theorem student_post_course_forbidden_witness:
  "POST_courses ''c3'' 300 store1 (Some ana_claim) (Some blank_body) =
     (Inl (HttpError 403 ''Doar profesorii pot crea sau modifica cursuri''), store1)"
  using student_post_course_forbidden [of ana_claim "''c3''" 300 store1 "Some blank_body"]
  by (simp add: ana_claim_def)

text \<open>
  Claim C4: for an existing course and an authenticated caller whose identity claim is
  not the course's owner, PUT /courses/:id and DELETE /courses/:id are answered 403 and
  the store is unchanged, whatever the body of the PUT is.
\<close>

theorem non_owner_put_delete_forbidden:
  assumes "course_findUnique s i = Some c" and "course_ownerId c \<noteq> sub u"
  shows "PUT_course s (Some u) i body = (Inl (HttpError 403 ''Nu ai acces la acest curs''), s)
       \<and> DELETE_course s (Some u) i = (Inl (HttpError 403 ''Nu ai acces la acest curs''), s)"
  using assms by (simp add: PUT_course_def DELETE_course_def authenticate_def)

theorem non_owner_put_delete_forbidden_witness:
  "PUT_course store1 (Some ana_claim) ''c1'' (Some blank_body)
     = (Inl (HttpError 403 ''Nu ai acces la acest curs''), store1)
   \<and> DELETE_course store1 (Some ana_claim) ''c1''
     = (Inl (HttpError 403 ''Nu ai acces la acest curs''), store1)"
  using non_owner_put_delete_forbidden [OF find_web_course, of ana_claim "Some blank_body"]
  by (simp add: web_course_def ana_claim_def)

text \<open>
  Claim C2: for PUT /courses/:id, DELETE /courses/:id, POST /courses/:id/resources and
  DELETE /comments/:id issued by any authenticated caller, a missing entity is answered
  404 with the store unchanged, whoever the caller is; and the 403 of the ownership check
  is only ever sent for an entity that exists.
\<close>

theorem missing_entity_not_found_before_ownership:
  assumes "user = Some u"
  shows "(course_findUnique s i = None \<longrightarrow>
            PUT_course s user i body = (Inl (HttpError 404 ''Curs inexistent''), s)
          \<and> DELETE_course s user i = (Inl (HttpError 404 ''Curs inexistent''), s)
          \<and> POST_resource new_id now s user i rbody = (Inl (HttpError 404 ''Curs inexistent''), s))
       \<and> (comment_findUnique s j = None \<longrightarrow>
            DELETE_comment s user j = (Inl (HttpError 404 ''Comentariu inexistent''), s))
       \<and> (fst (PUT_course s user i body) = Inl (HttpError 403 m1)
            \<longrightarrow> course_findUnique s i \<noteq> None)
       \<and> (fst (DELETE_course s user i) = Inl (HttpError 403 m2)
            \<longrightarrow> course_findUnique s i \<noteq> None)
       \<and> (fst (POST_resource new_id now s user i rbody) = Inl (HttpError 403 m3)
            \<longrightarrow> course_findUnique s i \<noteq> None)
       \<and> (fst (DELETE_comment s user j) = Inl (HttpError 403 m4)
            \<longrightarrow> comment_findUnique s j \<noteq> None)"
proof -
  have put: "PUT_course s user i body = (Inl (HttpError 404 ''Curs inexistent''), s)"
    and del: "DELETE_course s user i = (Inl (HttpError 404 ''Curs inexistent''), s)"
    and res: "POST_resource new_id now s user i rbody = (Inl (HttpError 404 ''Curs inexistent''), s)"
    if "course_findUnique s i = None"
    using that assms
    by (simp_all add: PUT_course_def DELETE_course_def POST_resource_def authenticate_def)
  have com: "DELETE_comment s user j = (Inl (HttpError 404 ''Comentariu inexistent''), s)"
    if "comment_findUnique s j = None"
    using that assms by (simp add: DELETE_comment_def authenticate_def)
  have "course_findUnique s i \<noteq> None" if "fst (PUT_course s user i body) = Inl (HttpError 403 m1)"
    using that put by (cases "course_findUnique s i") simp_all
  moreover
  have "course_findUnique s i \<noteq> None" if "fst (DELETE_course s user i) = Inl (HttpError 403 m2)"
    using that del by (cases "course_findUnique s i") simp_all
  moreover
  have "course_findUnique s i \<noteq> None"
    if "fst (POST_resource new_id now s user i rbody) = Inl (HttpError 403 m3)"
    using that res by (cases "course_findUnique s i") simp_all
  moreover
  have "comment_findUnique s j \<noteq> None" if "fst (DELETE_comment s user j) = Inl (HttpError 403 m4)"
    using that com by (cases "comment_findUnique s j") simp_all
  ultimately show ?thesis
    using put del res com by blast
qed

theorem missing_entity_not_found_before_ownership_witness:
  "PUT_course store1 (Some ana_claim) ''c9'' (Some blank_body)
     = (Inl (HttpError 404 ''Curs inexistent''), store1)
   \<and> DELETE_course store1 (Some ana_claim) ''c9''
     = (Inl (HttpError 404 ''Curs inexistent''), store1)
   \<and> POST_resource ''r9'' 300 store1 (Some ana_claim) ''c9'' None
     = (Inl (HttpError 404 ''Curs inexistent''), store1)
   \<and> DELETE_comment store1 (Some ana_claim) ''m9''
     = (Inl (HttpError 404 ''Comentariu inexistent''), store1)"
proof -
  have a: "course_findUnique store1 ''c9'' = None"
    by (simp add: course_findUnique_def store1_def web_course_def db_course_def)
  have b: "comment_findUnique store1 ''m9'' = None"
    by (simp add: comment_findUnique_def store1_def first_comment_def second_comment_def)
  show ?thesis
    using a b
      missing_entity_not_found_before_ownership [where user = "Some ana_claim"
        and u = ana_claim and s = store1 and i = "''c9''" and body = "Some blank_body"
        and new_id = "''r9''" and now = 300 and rbody = None and j = "''m9''"
        and ?m1.0 = "[]" and ?m2.0 = "[]" and ?m3.0 = "[]" and ?m4.0 = "[]"]
    by blast
qed

section \<open>Course routes: validation of an update\<close>

text \<open>
  Claim C9: PUT /courses/:id is atomic with respect to validation failure. Whenever the
  reply is 400 the store is unchanged, so title, description and category of the course
  are; and for the owner of an existing course a single provided field that is blank
  after trimming is enough for the 400, also when the fields checked before it are valid.
\<close>

theorem put_course_invalid_input_atomic:
  "(fst (PUT_course s user i body) = Inl (HttpError 400 m) \<longrightarrow> snd (PUT_course s user i body) = s)
   \<and> (course_findUnique s i = Some c \<and> course_ownerId c = sub u
        \<and> (trim_opt (body_title b) = Some [] \<or> trim_opt (body_description b) = Some []
             \<or> trim_opt (body_category b) = Some [])
      \<longrightarrow> (\<exists>m'. PUT_course s (Some u) i (Some b) = (Inl (HttpError 400 m'), s)))"
proof -
  have "\<exists>m'. PUT_course s (Some u) i (Some b) = (Inl (HttpError 400 m'), s)"
    if f: "course_findUnique s i = Some c" and o: "course_ownerId c = sub u"
      and bl: "trim_opt (body_title b) = Some [] \<or> trim_opt (body_description b) = Some []
             \<or> trim_opt (body_category b) = Some []"
  proof -
    have t: "(body_title b \<noteq> None \<and> trim (the (body_title b)) = []) \<longleftrightarrow> trim_opt (body_title b) = Some []"
      by (cases "body_title b") (simp_all add: trim_opt_def)
    have d: "(body_description b \<noteq> None \<and> trim (the (body_description b)) = []) \<longleftrightarrow> trim_opt (body_description b) = Some []"
      by (cases "body_description b") (simp_all add: trim_opt_def)
    have g: "(body_category b \<noteq> None \<and> trim (the (body_category b)) = []) \<longleftrightarrow> trim_opt (body_category b) = Some []"
      by (cases "body_category b") (simp_all add: trim_opt_def)
    from bl t d g have
      "(body_title b \<noteq> None \<and> trim (the (body_title b)) = [])
       \<or> (body_description b \<noteq> None \<and> trim (the (body_description b)) = [])
       \<or> (body_category b \<noteq> None \<and> trim (the (body_category b)) = [])"
      by blast
    then show ?thesis
      by (auto simp: PUT_course_def authenticate_def f o body_field_def Let_def)
  qed
  then show ?thesis
    using PUT_course_error_keeps_store by blast
qed

theorem put_course_invalid_input_atomic_witness:
  "PUT_course store1 (Some prof_claim) ''c1'' (Some half_blank_body)
     = (Inl (HttpError 400 ''description invalid''), store1)"
proof -
  have a: "course_findUnique store1 ''c1'' = Some web_course \<and> course_ownerId web_course = sub prof_claim
      \<and> (trim_opt (body_title half_blank_body) = Some [] \<or> trim_opt (body_description half_blank_body) = Some []
             \<or> trim_opt (body_category half_blank_body) = Some [])"
    by code_simp
  have r: "fst (PUT_course store1 (Some prof_claim) ''c1'' (Some half_blank_body))
     = Inl (HttpError 400 ''description invalid'')"
    by code_simp
  from put_course_invalid_input_atomic [where s = store1 and user = "Some prof_claim" and i = "''c1''"
      and body = "Some half_blank_body" and m = "''description invalid''"] r
  have "snd (PUT_course store1 (Some prof_claim) ''c1'' (Some half_blank_body)) = store1"
    by blast
  with r show ?thesis
    by (metis prod.collapse)
qed

section \<open>Course listing and course detail\<close>

text \<open>
  Claim C5, as written: with a \<open>search\<close> parameter GET /courses returns exactly the
  courses whose title or description contains the search string, case-insensitively.
  The handler trims the parameter first: the search string \<open>dev\<close> followed by a space
  returns the course titled \<open>Introducere in Web Dev\<close>, whose title and description
  do not contain that string.
\<close>

theorem list_courses_search_is_trimmed:
  "map_sum id (map sum_course) (GET_courses store1 (Some ''dev '') None) = Inr [web_course]
   \<and> \<not> sublist (map toLowerChar ''dev '') (map toLowerChar (course_title web_course))
   \<and> \<not> sublist (map toLowerChar ''dev '') (map toLowerChar (course_description web_course))"
  by code_simp

text \<open>
  The value also reaches the pattern match of the database as it is, so \<open>%\<close>,
  \<open>_\<close> and the backslash in it are not compared as characters: the search \<open>%\<close>
  lists every course, \<open>w_b\<close> finds the category \<open>Web\<close>, and the category that is
  one backslash makes the query fail.
\<close>

lemma list_courses_percent_matches_all:
  "map_sum id (map sum_course) (GET_courses store1 (Some ''%'') None)
     = Inr [db_course, web_course]"
  by code_simp

lemma list_courses_underscore_matches_any:
  "map_sum id (map sum_course) (GET_courses store1 None (Some ''w_b'')) = Inr [web_course]"
  by code_simp

lemma list_courses_backslash_fails:
  "GET_courses store1 None (Some [CHR 0x5C]) = Inl InternalServerError"
  by code_simp

text \<open>
  The category is compared before title and description, so the query also fails when
  the search selects no course.
\<close>

lemma list_courses_backslash_fails_before_search:
  "GET_courses store1 (Some ''zzz'') (Some [CHR 0x5C]) = Inl InternalServerError"
  by code_simp

text \<open>
  Claim C5, amended: for a \<open>search\<close> and a \<open>category\<close> that after trimming contain
  none of the characters \<open>%\<close>, \<open>_\<close> and backslash, GET /courses returns exactly the
  courses (each as often as it is stored) whose title or description contains the trimmed
  \<open>search\<close> string case-insensitively and whose category equals the trimmed
  \<open>category\<close> string case-insensitively; both restrictions at once when both are
  given; a parameter that is omitted or empty after trimming leaves its dimension
  unrestricted. Case-insensitively means: after the database has put both sides in lower
  case.
\<close>

theorem list_courses_trimmed_filters:
  assumes "plain_lower (db_lower s)"
    and "\<not> list_ex like_special (or_empty (trim_opt search))"
    and "\<not> list_ex like_special (or_empty (trim_opt category))"
  shows "\<exists>xs. GET_courses s search category = Inr xs
     \<and> mset (map sum_course xs) =
       filter_mset
         (\<lambda>c. (case search of None \<Rightarrow> True
                | Some x \<Rightarrow>
                    sublist (map (db_lower s) (trim x)) (map (db_lower s) (course_title c))
                    \<or> sublist (map (db_lower s) (trim x)) (map (db_lower s) (course_description c)))
             \<and> (case category of None \<Rightarrow> True
                | Some y \<Rightarrow>
                    trim y = []
                    \<or> map (db_lower s) (course_category c) = map (db_lower s) (trim y)))
         (mset (courses s))"
proof -
  let ?P = "\<lambda>c. (case search of None \<Rightarrow> True
                | Some x \<Rightarrow>
                    sublist (map (db_lower s) (trim x)) (map (db_lower s) (course_title c))
                    \<or> sublist (map (db_lower s) (trim x)) (map (db_lower s) (course_description c)))
             \<and> (case category of None \<Rightarrow> True
                | Some y \<Rightarrow>
                    trim y = []
                    \<or> map (db_lower s) (course_category c) = map (db_lower s) (trim y))"
  have w: "where_holds (db_lower s) (courses_where search category) c = Some (?P c)" for c
    by (rule courses_where_literal [OF assms])
  have "course_findMany s (courses_where search category)
      = Some (order_desc course_createdAt (filter ?P (courses s)))"
    unfolding course_findMany_def w by (simp add: list_ex_iff)
  then obtain xs where "GET_courses s search category = Inr xs"
    and "map sum_course xs = order_desc course_createdAt (filter ?P (courses s))"
    by (simp add: GET_courses_def comp_def)
  then have "GET_courses s search category = Inr xs
      \<and> mset (map sum_course xs) = filter_mset ?P (mset (courses s))"
    by (simp add: order_desc_mset)
  then show ?thesis ..
qed

theorem list_courses_trimmed_filters_witness:
  "\<exists>xs. GET_courses store1 (Some ''dev '') (Some ''WEB'') = Inr xs
     \<and> mset (map sum_course xs) = {#web_course#}"
proof -
  have h0: "plain_lower (db_lower store1)"
    by (simp add: store1_def plain_lower_toLowerChar)
  have h1: "\<not> list_ex like_special (or_empty (trim_opt (Some ''dev '')))" by code_simp
  have h2: "\<not> list_ex like_special (or_empty (trim_opt (Some ''WEB'')))" by code_simp
  have p1: "sublist (map (db_lower store1) (trim ''dev ''))
      (map (db_lower store1) (course_title web_course))" by code_simp
  have p2: "map (db_lower store1) (course_category web_course)
      = map (db_lower store1) (trim ''WEB'')" by code_simp
  have p3: "\<not> sublist (map (db_lower store1) (trim ''dev ''))
      (map (db_lower store1) (course_title db_course))" by code_simp
  have p4: "\<not> sublist (map (db_lower store1) (trim ''dev ''))
      (map (db_lower store1) (course_description db_course))" by code_simp
  have c: "courses store1 = [web_course, db_course]"
    by (simp add: store1_def)
  show ?thesis
    using list_courses_trimmed_filters [OF h0 h1 h2]
    by (simp add: c p1 p2 p3 p4)
qed



text \<open>
  Claim C8: for an existing course, in a database that satisfies its foreign keys (the
  owner of the course and the authors of its comments exist), GET /courses/:id returns
  the course with the \<open>{id, name}\<close> projection of its owner, exactly its resources
  ordered newest first, and exactly its comments ordered newest first, each comment with
  the \<open>{id, name}\<close> projection of its author.
\<close>

theorem get_course_detail:
  assumes c: "course_findUnique s i = Some c"
    and owner: "user_findUnique s (course_ownerId c) = Some owner"
    and authors: "\<forall>m \<in> set (comments s). comment_courseId m = i \<longrightarrow> user_findUnique s (comment_userId m) \<noteq> None"
  shows "\<exists>d. GET_course s i = Inr d \<and> det_course d = c
      \<and> det_owner d = Some \<lparr>ref_id = course_ownerId c, ref_name = user_name owner\<rparr>
      \<and> mset (det_resources d) = filter_mset (\<lambda>r. resource_courseId r = i) (mset (resources s))
      \<and> sorted_wrt (\<lambda>a b. resource_createdAt b \<le> resource_createdAt a) (det_resources d)
      \<and> mset (map cu_comment (det_comments d)) = filter_mset (\<lambda>m. comment_courseId m = i) (mset (comments s))
      \<and> sorted_wrt (\<lambda>a b. comment_createdAt (cu_comment b) \<le> comment_createdAt (cu_comment a)) (det_comments d)
      \<and> (\<forall>x \<in> set (det_comments d). \<exists>a. user_findUnique s (comment_userId (cu_comment x)) = Some a
            \<and> cu_user x = Some \<lparr>ref_id = comment_userId (cu_comment x), ref_name = user_name a\<rparr>)"
proof -
  from c have id: "course_id c = i"
    using find_Some_member [of "\<lambda>c. course_id c = i" "courses s" c]
    by (simp add: course_findUnique_def)
  from owner have oid: "user_id owner = course_ownerId c"
    using find_Some_member [of "\<lambda>u. user_id u = course_ownerId c" "users s" owner]
    by (simp add: user_findUnique_def)
  let ?d = "\<lparr>det_course = c,
             det_owner = select_ref s (course_ownerId c),
             det_resources = course_resources s i,
             det_comments = map (\<lambda>m. \<lparr>cu_comment = m, cu_user = select_ref s (comment_userId m)\<rparr>)
                              (course_comments s i)\<rparr>"
  have g: "GET_course s i = Inr ?d"
    by (simp add: GET_course_def c id)
  have o: "det_owner ?d = Some \<lparr>ref_id = course_ownerId c, ref_name = user_name owner\<rparr>"
    by (simp add: select_ref_def owner oid)
  have r1: "mset (det_resources ?d) = filter_mset (\<lambda>r. resource_courseId r = i) (mset (resources s))"
    by (simp add: course_resources_def order_desc_mset)
  have r2: "sorted_wrt (\<lambda>a b. resource_createdAt b \<le> resource_createdAt a) (det_resources ?d)"
    by (simp add: course_resources_def order_desc_sorted)
  have m1: "mset (map cu_comment (det_comments ?d)) = filter_mset (\<lambda>m. comment_courseId m = i) (mset (comments s))"
    by (simp add: course_comments_def order_desc_mset comp_def)
  have m2: "sorted_wrt (\<lambda>a b. comment_createdAt (cu_comment b) \<le> comment_createdAt (cu_comment a)) (det_comments ?d)"
    by (simp add: sorted_wrt_map course_comments_def order_desc_sorted)
  have m3: "\<exists>a. user_findUnique s (comment_userId (cu_comment x)) = Some a
            \<and> cu_user x = Some \<lparr>ref_id = comment_userId (cu_comment x), ref_name = user_name a\<rparr>"
    if "x \<in> set (det_comments ?d)" for x
  proof -
    from that obtain m where x: "x = \<lparr>cu_comment = m, cu_user = select_ref s (comment_userId m)\<rparr>"
      and m: "m \<in> set (course_comments s i)" by auto
    from m have "m \<in># mset (course_comments s i)" by simp
    then have "m \<in> set (comments s)" "comment_courseId m = i"
      by (simp_all add: course_comments_def order_desc_mset)
    with authors obtain a where a: "user_findUnique s (comment_userId m) = Some a" by auto
    then have "user_id a = comment_userId m"
      using find_Some_member [of "\<lambda>u. user_id u = comment_userId m" "users s" a]
      by (simp add: user_findUnique_def)
    with a x show ?thesis by (simp add: select_ref_def)
  qed
  from g o r1 r2 m1 m2 m3 show ?thesis
    by (intro exI [of _ ?d]) simp
qed

theorem get_course_detail_witness:
  "\<exists>d. GET_course store1 ''c1'' = Inr d \<and> det_course d = web_course
      \<and> det_owner d = Some \<lparr>ref_id = ''u2'', ref_name = ''Test Profesor''\<rparr>
      \<and> det_resources d = [css_basics, html_guide]
      \<and> det_comments d =
          [\<lparr>cu_comment = second_comment, cu_user = Some \<lparr>ref_id = ''u1'', ref_name = ''Ana''\<rparr>\<rparr>,
           \<lparr>cu_comment = first_comment, cu_user = Some \<lparr>ref_id = ''u2'', ref_name = ''Test Profesor''\<rparr>\<rparr>]"
proof -
  have h2: "user_findUnique store1 (course_ownerId web_course) = Some prof"
    by code_simp
  have h3: "\<forall>m \<in> set (comments store1).
      comment_courseId m = ''c1'' \<longrightarrow> user_findUnique store1 (comment_userId m) \<noteq> None"
    by code_simp
  from get_course_detail [OF find_web_course h2 h3] obtain d where
    d: "GET_course store1 ''c1'' = Inr d" and c: "det_course d = web_course"
    and o: "det_owner d = Some \<lparr>ref_id = course_ownerId web_course, ref_name = user_name prof\<rparr>"
    by blast
  have e: "GET_course store1 ''c1'' =
     Inr \<lparr>det_course = web_course,
          det_owner = Some \<lparr>ref_id = ''u2'', ref_name = ''Test Profesor''\<rparr>,
          det_resources = [css_basics, html_guide],
          det_comments =
          [\<lparr>cu_comment = second_comment, cu_user = Some \<lparr>ref_id = ''u1'', ref_name = ''Ana''\<rparr>\<rparr>,
           \<lparr>cu_comment = first_comment, cu_user = Some \<lparr>ref_id = ''u2'', ref_name = ''Test Profesor''\<rparr>\<rparr>]\<rparr>"
    by code_simp
  from d e have "d =
     \<lparr>det_course = web_course,
      det_owner = Some \<lparr>ref_id = ''u2'', ref_name = ''Test Profesor''\<rparr>,
      det_resources = [css_basics, html_guide],
      det_comments =
      [\<lparr>cu_comment = second_comment, cu_user = Some \<lparr>ref_id = ''u1'', ref_name = ''Ana''\<rparr>\<rparr>,
       \<lparr>cu_comment = first_comment, cu_user = Some \<lparr>ref_id = ''u2'', ref_name = ''Test Profesor''\<rparr>\<rparr>]\<rparr>"
    by simp
  with d c o show ?thesis by simp
qed

end
